theory Spec2Isabelle
  imports Main
begin

section \<open>The XLSX backend of bubbles (\<^verbatim>\<open>bubbles/backends/xlsx.py\<close>)\<close>

subsection \<open>Python values and builtins used by the module\<close>

text \<open>
  The raw value of a cell is a Python scalar. The module only passes values through
  (\<^verbatim>\<open>c.value\<close>), tests their truth value (\<^verbatim>\<open>any(values)\<close>) and takes their text
  (\<^verbatim>\<open>str(c.value)\<close>). The values are \<^verbatim>\<open>None\<close>, booleans, (unbounded) integers, floats,
  strings and datetimes (the value of a date cell).
  A string is a list of characters, each character standing for a code point below 256.

  A finite float is given by its sign and the decimal \<open>m \<times> 10\<^sup>e\<close> that \<^verbatim>\<open>repr\<close> prints for
  it (the shortest decimal that reads back as the same float); \<open>Finite neg m e\<close> stands for
  that float, so \<open>1.5\<close> is \<open>Finite False 15 (- 1)\<close> and \<open>-0.0\<close> is \<open>Finite True 0 0\<close>.
  The arithmetic of floats is not modelled: the module does none.

  A datetime is \<open>DateTime year month day hour minute second microsecond\<close>, without time zone.
\<close>

datatype pyfloat = Finite bool nat int | Infinity bool | NaN

datatype pydatetime = DateTime nat nat nat nat nat nat nat

datatype pyvalue =
    PyNone
  | PyBool bool
  | PyInt int
  | PyFloat pyfloat
  | PyStr string
  | PyDateTime pydatetime

datatype error =
    ArgumentError string
  | BubblesError string
  | RuntimeError string
  | StopIteration
  | IndexError
  | KeyError string
  | ValueError string
  | OverflowError

text \<open>
  Python's truth value of a scalar (\<^verbatim>\<open>bool(v)\<close>): a float is false exactly when it is zero
  (\<open>0.0\<close> or \<open>-0.0\<close>), a datetime is always true.
\<close>

fun float_nonzero :: "pyfloat \<Rightarrow> bool" where
  "float_nonzero (Finite neg m e) = (m \<noteq> 0)"
| "float_nonzero (Infinity neg) = True"
| "float_nonzero NaN = True"

fun truthy :: "pyvalue \<Rightarrow> bool" where
  "truthy PyNone = False"
| "truthy (PyBool b) = b"
| "truthy (PyInt i) = (i \<noteq> 0)"
| "truthy (PyFloat f) = float_nonzero f"
| "truthy (PyStr s) = (s \<noteq> [])"
| "truthy (PyDateTime d) = True"

text \<open>\<^verbatim>\<open>any(values)\<close>: true as soon as one element is true.\<close>

fun py_any :: "pyvalue list \<Rightarrow> bool" where
  "py_any [] = False"
| "py_any (v # vs) = (if truthy v then True else py_any vs)"

text \<open>\<^verbatim>\<open>next(it)\<close> on an iterator over the given remaining elements.\<close>

definition py_next :: "'a list \<Rightarrow> error + 'a" where
  "py_next xs = (case xs of [] \<Rightarrow> Inl StopIteration | x # _ \<Rightarrow> Inr x)"

text \<open>
  \<^verbatim>\<open>xs[i]\<close> on a list of length \<open>n\<close>: positions \<open>0\<close> to \<open>n - 1\<close> from the front,
  \<open>-1\<close> down to \<open>-n\<close> from the back, \<^verbatim>\<open>IndexError\<close> outside.
\<close>

definition py_index :: "'a list \<Rightarrow> int \<Rightarrow> error + 'a" where
  "py_index xs i =
     (if 0 \<le> i \<and> i < int (length xs) then Inr (xs ! nat i)
      else if i < 0 \<and> - int (length xs) \<le> i then Inr (xs ! nat (int (length xs) + i))
      else Inl IndexError)"

text \<open>Decimal text of an integer (\<^verbatim>\<open>str(i)\<close>, \<^verbatim>\<open>'%d' % i\<close>).\<close>

definition digit_char :: "nat \<Rightarrow> char" where
  "digit_char d = ''0123456789'' ! d"

function str_nat :: "nat \<Rightarrow> string" where
  "str_nat n = (if n < 10 then [digit_char n] else str_nat (n div 10) @ [digit_char (n mod 10)])"
  by pat_completeness auto
termination
  by (relation "measure (\<lambda>n. n)") auto

declare str_nat.simps [simp del]

definition str_int :: "int \<Rightarrow> string" where
  "str_int i = (if i < 0 then CHR ''-'' # str_nat (nat (- i)) else str_nat (nat i))"

text \<open>
  The text of a float (\<^verbatim>\<open>str(x)\<close>, which is \<^verbatim>\<open>repr(x)\<close>). With the digits \<open>ds\<close> of the
  decimal, trailing zeros removed, and \<open>decpt\<close> the position of the decimal point after
  the first \<open>decpt\<close> digits: the exponent form \<open>d.ddde\<plusminus>XX\<close> when \<open>decpt \<le> -4\<close> or
  \<open>decpt > 16\<close>, otherwise the positional form, which always shows a decimal point
  (\<open>8.0\<close>, \<open>0.001\<close>, \<open>1.5\<close>).
\<close>

function strip_zeros :: "nat \<Rightarrow> int \<Rightarrow> nat \<times> int" where
  "strip_zeros m e = (if m \<noteq> 0 \<and> m mod 10 = 0 then strip_zeros (m div 10) (e + 1) else (m, e))"
  by pat_completeness auto
termination
  by (relation "measure (\<lambda>(m, e). m)") auto

declare strip_zeros.simps [simp del]

definition exponent_text :: "int \<Rightarrow> string" where
  "exponent_text x =
     (if x < 0 then ''-'' else ''+'') @
     (if \<bar>x\<bar> < 10 then CHR ''0'' # str_nat (nat \<bar>x\<bar>) else str_nat (nat \<bar>x\<bar>))"

definition repr_decimal :: "nat \<Rightarrow> int \<Rightarrow> string" where
  "repr_decimal m e =
     (let (m', e') = (if m = 0 then (0, 0) else strip_zeros m e);
          ds = str_nat m';
          n = int (length ds);
          decpt = n + e'
      in if decpt \<le> - 4 \<or> 16 < decpt
         then take 1 ds @ (if 1 < n then ''.'' @ drop 1 ds else []) @ ''e'' @ exponent_text (decpt - 1)
         else if decpt \<le> 0 then ''0.'' @ replicate (nat (- decpt)) CHR ''0'' @ ds
         else if n \<le> decpt then ds @ replicate (nat (decpt - n)) CHR ''0'' @ ''.0''
         else take (nat decpt) ds @ ''.'' @ drop (nat decpt) ds)"

fun float_str :: "pyfloat \<Rightarrow> string" where
  "float_str (Finite neg m e) = (if neg then ''-'' else []) @ repr_decimal m e"
| "float_str (Infinity neg) = (if neg then ''-inf'' else ''inf'')"
| "float_str NaN = ''nan''"

text \<open>
  The text of a datetime (\<^verbatim>\<open>str(d)\<close>): \<open>YYYY-MM-DD HH:MM:SS\<close>, followed by \<open>.ffffff\<close> when
  the microsecond is not zero.
\<close>

definition zero_pad :: "nat \<Rightarrow> nat \<Rightarrow> string" where
  "zero_pad w n = replicate (w - length (str_nat n)) CHR ''0'' @ str_nat n"

fun datetime_str :: "pydatetime \<Rightarrow> string" where
  "datetime_str (DateTime y mo d h mi sec us) =
     zero_pad 4 y @ ''-'' @ zero_pad 2 mo @ ''-'' @ zero_pad 2 d @ '' '' @
     zero_pad 2 h @ '':'' @ zero_pad 2 mi @ '':'' @ zero_pad 2 sec @
     (if us = 0 then [] else ''.'' @ zero_pad 6 us)"

text \<open>\<^verbatim>\<open>str(v)\<close>.\<close>

fun py_str :: "pyvalue \<Rightarrow> string" where
  "py_str PyNone = ''None''"
| "py_str (PyBool b) = (if b then ''True'' else ''False'')"
| "py_str (PyInt i) = str_int i"
| "py_str (PyFloat f) = float_str f"
| "py_str (PyStr s) = s"
| "py_str (PyDateTime d) = datetime_str d"

text \<open>
  \<^verbatim>\<open>str.isspace\<close> on one character, for code points below 256: TAB, LF, VT, FF, CR,
  the separators 0x1C to 0x1F, SPACE, NEL (0x85) and NBSP (0xA0).
\<close>

definition isspace :: "char \<Rightarrow> bool" where
  "isspace c = (c \<in> set [CHR 0x09, CHR 0x0A, CHR 0x0B, CHR 0x0C, CHR 0x0D,
                          CHR 0x1C, CHR 0x1D, CHR 0x1E, CHR 0x1F, CHR 0x20,
                          CHR 0x85, CHR 0xA0])"

text \<open>
  \<^verbatim>\<open>s.split()\<close> with no separator: the maximal runs of non-whitespace characters.
  \<open>split_from cur s\<close> scans \<open>s\<close> with \<open>cur\<close> the word read so far.
\<close>

fun split_from :: "string \<Rightarrow> string \<Rightarrow> string list" where
  "split_from cur [] = (if cur = [] then [] else [cur])"
| "split_from cur (c # cs) =
     (if isspace c then (if cur = [] then split_from [] cs else cur # split_from [] cs)
      else split_from (cur @ [c]) cs)"

definition py_split :: "string \<Rightarrow> string list" where
  "py_split s = split_from [] s"

text \<open>\<^verbatim>\<open>sep.join(words)\<close>.\<close>

fun py_join :: "string \<Rightarrow> string list \<Rightarrow> string" where
  "py_join sep [] = []"
| "py_join sep [w] = w"
| "py_join sep (w # ws) = w @ sep @ py_join sep ws"

subsection \<open>The workbook reader (\<^verbatim>\<open>openpyxl\<close>): what the module reads of it\<close>

text \<open>
  The raw type tag of a cell: the six tags that are keys of \<^verbatim>\<open>CELL_TYPES\<close> (six different
  values), and any other tag. A cell's value, date flag and tag are read independently.
\<close>

datatype cell_type =
    TYPE_STRING
  | TYPE_FORMULA
  | TYPE_NUMERIC
  | TYPE_BOOL
  | TYPE_INLINE
  | TYPE_FORMULA_CACHE_STRING
  | TYPE_OTHER

record cell =
  cell_value :: pyvalue
  is_date :: bool
  data_type :: cell_type

type_synonym row = "cell list"

text \<open>\<^verbatim>\<open>sheet.rows\<close>: every access starts a fresh pass over the same rows.\<close>

type_synonym sheet = "row list"

text \<open>A workbook: its worksheets in order, each with its title.\<close>

type_synonym workbook = "(string \<times> sheet) list"

datatype sheet_selector = SheetInt int | SheetStr string | SheetOther

subsection \<open>Fields (\<^verbatim>\<open>bubbles.metadata\<close>)\<close>

text \<open>
  Modelled from the spec: \<^verbatim>\<open>Field\<close> and \<^verbatim>\<open>FieldList\<close> of \<^verbatim>\<open>bubbles.metadata\<close>, which this
  module imports. A field is a name and a storage type; a field list is the ordered list of
  its fields, \<^verbatim>\<open>append\<close> adds at the end, \<^verbatim>\<open>len\<close> is the number of fields, and, as a
  container with a length, a field list is true exactly when it is not empty.
\<close>

record field =
  name :: string
  storage_type :: string

text \<open>The truth value of the \<^verbatim>\<open>fields\<close> argument: \<^verbatim>\<open>None\<close> and the empty list are false.\<close>

fun fields_truthy :: "field list option \<Rightarrow> bool" where
  "fields_truthy None = False"
| "fields_truthy (Some fs) = (fs \<noteq> [])"

subsection \<open>\<^verbatim>\<open>CELL_TYPES\<close>\<close>

definition CELL_TYPES :: "(cell_type \<times> string) list" where
  "CELL_TYPES = [(TYPE_STRING, ''string''),
                 (TYPE_FORMULA, ''unknown''),
                 (TYPE_NUMERIC, ''float''),
                 (TYPE_BOOL, ''boolean''),
                 (TYPE_INLINE, ''string''),
                 (TYPE_FORMULA_CACHE_STRING, ''string'')]"

text \<open>\<^verbatim>\<open>d.get(k, default)\<close> on a dictionary given by its items.\<close>

definition dict_get :: "('k \<times> 'v) list \<Rightarrow> 'k \<Rightarrow> 'v \<Rightarrow> 'v" where
  "dict_get d k dflt = (case map_of d k of None \<Rightarrow> dflt | Some v \<Rightarrow> v)"

subsection \<open>\<^verbatim>\<open>XLSXStore\<close>\<close>

record XLSXStore =
  resource :: string
  encoding :: "string option"
  book_cache :: "workbook option"

text \<open>
  The \<^verbatim>\<open>book\<close> property: loads the workbook on first use and keeps it. The loader
  (\<^verbatim>\<open>_load_workbook\<close>) is a parameter.
\<close>

definition book :: "(string \<Rightarrow> error + workbook) \<Rightarrow> XLSXStore \<Rightarrow> (error + workbook) \<times> XLSXStore" where
  "book load s =
     (case book_cache s of
        None \<Rightarrow> (case load (resource s) of
                   Inl e \<Rightarrow> (Inl e, s)
                 | Inr b \<Rightarrow> (Inr b, s\<lparr>book_cache := Some b\<rparr>))
      | Some b \<Rightarrow> (Inr b, s))"

text \<open>\<^verbatim>\<open>create\<close>: the result (always the exception) and the store after the call.\<close>

definition create :: "XLSXStore \<Rightarrow> string \<Rightarrow> (error + unit) \<times> XLSXStore" where
  "create s nm = (Inl (BubblesError ''XLSX store is read-only''), s)"

subsection \<open>\<^verbatim>\<open>XLSXObject\<close>\<close>

text \<open>The attribute \<^verbatim>\<open>self.fields\<close> is the component \<open>field_list\<close>.\<close>

record XLSXObject =
  workbook :: workbook
  sheet :: sheet
  first_row :: int
  stop_empty_line :: bool
  field_list :: "field list"

text \<open>The sheet selection of \<^verbatim>\<open>__init__\<close>: by index, by title, or an argument error.\<close>

definition select_sheet :: "workbook \<Rightarrow> sheet_selector \<Rightarrow> error + sheet" where
  "select_sheet wb sel =
     (case sel of
        SheetInt i \<Rightarrow> py_index (map snd wb) i
      | SheetStr nm \<Rightarrow> (case map_of wb nm of None \<Rightarrow> Inl (KeyError nm) | Some sh \<Rightarrow> Inr sh)
      | SheetOther \<Rightarrow> Inl (ArgumentError ''sheet has to be a string or an integer''))"

text \<open>
  \<^verbatim>\<open>dropwhile(lambda x: x[0] < k, enumerate(self.sheet.rows))\<close>: the indexed rows from
  the first one whose index is not below \<open>k\<close>.
\<close>

definition rows_from :: "int \<Rightarrow> sheet \<Rightarrow> (nat \<times> row) list" where
  "rows_from k sh = dropWhile (\<lambda>x. int (fst x) < k) (enumerate 0 sh)"

text \<open>The name taken from a header cell, and the name synthesized for column \<open>i\<close>.\<close>

definition header_name :: "cell \<Rightarrow> string" where
  "header_name c = py_join '' '' (py_split (py_str (cell_value c)))"

definition col_name :: "nat \<Rightarrow> string" where
  "col_name i = ''col'' @ str_nat i"

text \<open>The body of the loop that builds the field list: one field per (name, cell) pair.\<close>

definition infer_field :: "string \<Rightarrow> cell \<Rightarrow> field" where
  "infer_field nm c =
     (let st = (if is_date c then ''date'' else dict_get CELL_TYPES (data_type c) ''unknown'')
      in \<lparr>name = nm, storage_type = st\<rparr>)"

text \<open>The \<^verbatim>\<open>else\<close> branch of \<^verbatim>\<open>__init__\<close>: the fields inferred from the sheet.\<close>

definition infer_fields :: "sheet \<Rightarrow> int \<Rightarrow> bool \<Rightarrow> error + field list" where
  "infer_fields sh fr has_header =
     (case py_next (rows_from fr sh) of
        Inl e \<Rightarrow> Inl e
      | Inr x \<Rightarrow>
          (let ref_row = snd x in
           (case (if has_header
                  then (case py_next (rows_from (fr - 1) sh) of
                          Inl e \<Rightarrow> Inl e
                        | Inr h \<Rightarrow> Inr (map header_name (snd h)))
                  else Inr (map col_name [0..<length ref_row])) of
              Inl e \<Rightarrow> Inl e
            | Inr names \<Rightarrow> Inr (map (\<lambda>(nm, c). infer_field nm c) (zip names ref_row)))))"

text \<open>
  \<^verbatim>\<open>__init__\<close>, with the resource given as a workbook (as the store passes it; reading a
  workbook from a file name is left to the reader). The \<^verbatim>\<open>encoding\<close> argument is not used.
\<close>

definition XLSXObject_init ::
  "workbook \<Rightarrow> field list option \<Rightarrow> sheet_selector \<Rightarrow> int \<Rightarrow> bool \<Rightarrow> bool \<Rightarrow> error + XLSXObject" where
  "XLSXObject_init wb fields_arg sel skip_rows has_header stop_empty =
     (case select_sheet wb sel of
        Inl e \<Rightarrow> Inl e
      | Inr sh \<Rightarrow>
          (let fr = (if has_header then skip_rows + 1 else skip_rows) in
           (case (if fields_truthy fields_arg
                  then Inr (case fields_arg of None \<Rightarrow> [] | Some fs \<Rightarrow> fs)
                  else infer_fields sh fr has_header) of
              Inl e \<Rightarrow> Inl e
            | Inr fs \<Rightarrow> Inr \<lparr>workbook = wb, sheet = sh, first_row = fr,
                             stop_empty_line = stop_empty, field_list = fs\<rparr>)))"

text \<open>
  \<^verbatim>\<open>XLSXStore.get_object\<close> and \<^verbatim>\<open>XLSXStore.object_names\<close>: both go through the
  \<^verbatim>\<open>book\<close> property, so they return the store as well.
\<close>

definition get_object ::
  "(string \<Rightarrow> error + workbook) \<Rightarrow> XLSXStore \<Rightarrow> sheet_selector \<Rightarrow> int \<Rightarrow> bool \<Rightarrow> bool \<Rightarrow>
     field list option \<Rightarrow> (error + XLSXObject) \<times> XLSXStore" where
  "get_object load s nm skip_rows has_header stop_empty fields_arg =
     (case book load s of
        (Inl e, s') \<Rightarrow> (Inl e, s')
      | (Inr b, s') \<Rightarrow> (XLSXObject_init b fields_arg nm skip_rows has_header stop_empty, s'))"

definition object_names :: "(string \<Rightarrow> error + workbook) \<Rightarrow> XLSXStore \<Rightarrow> (error + string list) \<times> XLSXStore" where
  "object_names load s =
     (case book load s of
        (Inl e, s') \<Rightarrow> (Inl e, s')
      | (Inr b, s') \<Rightarrow> (Inr (map fst b), s'))"

text \<open>\<^verbatim>\<open>_nrows\<close>: \<^verbatim>\<open>sum([1 for _ in self.sheet.rows])\<close>.\<close>

definition nrows :: "XLSXObject \<Rightarrow> int" where
  "nrows self = sum_list (map (\<lambda>_. 1) (sheet self))"

text \<open>\<^verbatim>\<open>__len__\<close>.\<close>

definition len :: "XLSXObject \<Rightarrow> int" where
  "len self = nrows self - first_row self"

text \<open>
  The length query \<^verbatim>\<open>len(extractor)\<close>: the builtin calls \<^verbatim>\<open>__len__\<close> and accepts its
  result only when it is not negative and fits an index (\<^verbatim>\<open>sys.maxsize\<close>, here that of a
  64-bit build).
\<close>

definition sys_maxsize :: int where
  "sys_maxsize = 2 ^ 63 - 1"

definition builtin_len :: "XLSXObject \<Rightarrow> error + int" where
  "builtin_len self =
     (let n = len self in
      if n < 0 then Inl (ValueError ''__len__() should return >= 0'')
      else if sys_maxsize < n then Inl OverflowError
      else Inr n)"

text \<open>\<^verbatim>\<open>[c.value for c in row[:field_count]]\<close>.\<close>

definition row_values :: "nat \<Rightarrow> row \<Rightarrow> pyvalue list" where
  "row_values field_count r = map cell_value (take field_count r)"

text \<open>
  The loop of \<^verbatim>\<open>rows\<close> over the indexed rows left after \<^verbatim>\<open>dropwhile\<close>: the tuples it
  yields, in order, up to the \<^verbatim>\<open>break\<close> or the end of the sheet.
\<close>

fun rows_loop :: "bool \<Rightarrow> nat \<Rightarrow> (nat \<times> row) list \<Rightarrow> pyvalue list list" where
  "rows_loop stop_empty field_count [] = []"
| "rows_loop stop_empty field_count (x # rest) =
     (let values = row_values field_count (snd x) in
      if stop_empty \<and> \<not> py_any values then []
      else values # rows_loop stop_empty field_count rest)"

text \<open>
  \<^verbatim>\<open>rows\<close>, a generator, by what consuming it gives: the error raised (on the first
  request), or the sequence of tuples yielded up to the end.
\<close>

definition rows :: "XLSXObject \<Rightarrow> error + pyvalue list list" where
  "rows self =
     (let stop_empty = stop_empty_line self in
      if field_list self = [] then Inl (RuntimeError ''Fields are not initialized'')
      else (let field_count = length (field_list self) in
            Inr (rows_loop stop_empty field_count (rows_from (first_row self) (sheet self)))))"

subsection \<open>The rules of the specification, as it words them\<close>

text \<open>
  The storage type of a cell as the specification gives it: \<open>date\<close> when the date flag is
  set, otherwise by the fixed table of raw type tags, \<open>unknown\<close> for any other tag.
\<close>

definition spec_storage_type :: "cell \<Rightarrow> string" where
  "spec_storage_type c =
     (if is_date c then ''date''
      else (case data_type c of
              TYPE_STRING \<Rightarrow> ''string''
            | TYPE_FORMULA \<Rightarrow> ''unknown''
            | TYPE_NUMERIC \<Rightarrow> ''float''
            | TYPE_BOOL \<Rightarrow> ''boolean''
            | TYPE_INLINE \<Rightarrow> ''string''
            | TYPE_FORMULA_CACHE_STRING \<Rightarrow> ''string''
            | TYPE_OTHER \<Rightarrow> ''unknown''))"

text \<open>
  A falsy/empty value as the specification lists them: null, empty string, zero (the
  integer \<open>0\<close>, or a float that is zero), or false.
\<close>

fun spec_empty_value :: "pyvalue \<Rightarrow> bool" where
  "spec_empty_value PyNone = True"
| "spec_empty_value (PyStr s) = (s = [])"
| "spec_empty_value (PyInt i) = (i = 0)"
| "spec_empty_value (PyFloat (Finite neg m e)) = (m = 0)"
| "spec_empty_value (PyBool b) = (b = False)"
| "spec_empty_value v = False"

subsection \<open>Example workbooks\<close>

definition str_cell :: "string \<Rightarrow> cell" where
  "str_cell s = \<lparr>cell_value = PyStr s, is_date = False, data_type = TYPE_STRING\<rparr>"

definition num_cell :: "int \<Rightarrow> cell" where
  "num_cell i = \<lparr>cell_value = PyInt i, is_date = False, data_type = TYPE_NUMERIC\<rparr>"

definition float_cell :: "pyfloat \<Rightarrow> cell" where
  "float_cell x = \<lparr>cell_value = PyFloat x, is_date = False, data_type = TYPE_NUMERIC\<rparr>"

definition null_cell :: cell where
  "null_cell = \<lparr>cell_value = PyNone, is_date = False, data_type = TYPE_NUMERIC\<rparr>"

text \<open>A header row of two cells, a data row of two cells and a data row of one cell.\<close>

definition ragged_sheet :: sheet where
  "ragged_sheet = [[str_cell ''A'', str_cell ''B''],
                   [num_cell 1, num_cell 2],
                   [num_cell 3]]"

definition ragged_book :: workbook where
  "ragged_book = [(''Sheet1'', ragged_sheet)]"

definition ragged_object :: XLSXObject where
  "ragged_object =
     \<lparr>workbook = ragged_book, sheet = ragged_sheet, first_row = 1, stop_empty_line = False,
      field_list = [\<lparr>name = ''A'', storage_type = ''float''\<rparr>,
                    \<lparr>name = ''B'', storage_type = ''float''\<rparr>]\<rparr>"

text \<open>
  Between two data rows, a row whose first two cells are empty (null and \<open>0.0\<close>) and whose
  third cell holds a note.
\<close>

definition gap_sheet :: sheet where
  "gap_sheet = [[str_cell ''Name'', str_cell ''Score''],
                [str_cell ''Ann'', float_cell (Finite False 95 (- 1))],
                [null_cell, float_cell (Finite False 0 0), str_cell ''note''],
                [str_cell ''Bo'', float_cell (Finite False 8 0)]]"

definition gap_object :: XLSXObject where
  "gap_object =
     \<lparr>workbook = [(''Data'', gap_sheet)], sheet = gap_sheet, first_row = 1,
      stop_empty_line = True,
      field_list = [\<lparr>name = ''Name'', storage_type = ''string''\<rparr>,
                    \<lparr>name = ''Score'', storage_type = ''float''\<rparr>]\<rparr>"

text \<open>A header cell that holds one space.\<close>

definition blank_header_sheet :: sheet where
  "blank_header_sheet = [[str_cell '' ''], [str_cell ''x'']]"

definition blank_header_book :: workbook where
  "blank_header_book = [(''S'', blank_header_sheet)]"

text \<open>A sheet with no row, and a sheet whose first data row has no cell.\<close>

definition empty_book :: workbook where
  "empty_book = [(''Empty'', [])]"

definition no_cell_sheet :: sheet where
  "no_cell_sheet = [[str_cell ''A''], []]"

definition no_cell_book :: workbook where
  "no_cell_book = [(''S'', no_cell_sheet)]"

text \<open>A data row with a date cell, a boolean cell and a cell of another type.\<close>

definition date_cell :: cell where
  "date_cell = \<lparr>cell_value = PyDateTime (DateTime 2014 12 31 0 0 0 0), is_date = True,
                 data_type = TYPE_NUMERIC\<rparr>"

definition typed_sheet :: sheet where
  "typed_sheet = [[str_cell ''When'', str_cell ''Flag'', str_cell ''What''],
                  [date_cell,
                   \<lparr>cell_value = PyBool True, is_date = False, data_type = TYPE_BOOL\<rparr>,
                   \<lparr>cell_value = PyNone, is_date = False, data_type = TYPE_OTHER\<rparr>]]"

definition typed_object :: XLSXObject where
  "typed_object =
     \<lparr>workbook = [(''T'', typed_sheet)], sheet = typed_sheet, first_row = 1,
      stop_empty_line = False,
      field_list = [\<lparr>name = ''col0'', storage_type = ''date''\<rparr>,
                    \<lparr>name = ''col1'', storage_type = ''boolean''\<rparr>,
                    \<lparr>name = ''col2'', storage_type = ''unknown''\<rparr>]\<rparr>"

text \<open>A header row of one cell over a data row of three cells, the third a date cell.\<close>

definition short_header_sheet :: sheet where
  "short_header_sheet = [[str_cell ''a''], [num_cell 1, str_cell ''x'', date_cell]]"

definition short_header_object :: XLSXObject where
  "short_header_object =
     \<lparr>workbook = [(''H'', short_header_sheet)], sheet = short_header_sheet, first_row = 1,
      stop_empty_line = False,
      field_list = [\<lparr>name = ''a'', storage_type = ''float''\<rparr>]\<rparr>"

text \<open>An extractor with supplied fields over the sheet with no row.\<close>

definition headless_object :: XLSXObject where
  "headless_object =
     \<lparr>workbook = empty_book, sheet = [], first_row = 1, stop_empty_line = False,
      field_list = [\<lparr>name = ''a'', storage_type = ''string''\<rparr>]\<rparr>"

definition blank_header_object :: XLSXObject where
  "blank_header_object =
     \<lparr>workbook = blank_header_book, sheet = blank_header_sheet, first_row = 1,
      stop_empty_line = False,
      field_list = [\<lparr>name = [], storage_type = ''string''\<rparr>]\<rparr>"

text \<open>
  A header row with a null cell, an integer, the float \<open>1.5\<close>, a date and a name wrapped
  over two lines.
\<close>

definition odd_header_sheet :: sheet where
  "odd_header_sheet =
     [[null_cell, num_cell (- 12), float_cell (Finite False 15 (- 1)), date_cell,
       str_cell [CHR ''a'', CHR 0x0A, CHR '' '', CHR ''b'']],
      [str_cell ''v'', str_cell ''w'', str_cell ''x'', str_cell ''y'', str_cell ''z'']]"

definition odd_header_object :: XLSXObject where
  "odd_header_object =
     \<lparr>workbook = [(''O'', odd_header_sheet)], sheet = odd_header_sheet, first_row = 1,
      stop_empty_line = False,
      field_list = [\<lparr>name = ''None'', storage_type = ''string''\<rparr>,
                    \<lparr>name = ''-12'', storage_type = ''string''\<rparr>,
                    \<lparr>name = ''1.5'', storage_type = ''string''\<rparr>,
                    \<lparr>name = ''2014-12-31 00:00:00'', storage_type = ''string''\<rparr>,
                    \<lparr>name = ''a b'', storage_type = ''string''\<rparr>]\<rparr>"

subsection \<open>The definitions that evaluate a construction and a scan\<close>

lemmas init_defs =
  XLSXObject_init_def select_sheet_def py_index_def infer_fields_def rows_from_def
  py_next_def header_name_def col_name_def py_split_def infer_field_def dict_get_def
  CELL_TYPES_def isspace_def Let_def

lemmas rows_defs =
  rows_def rows_from_def row_values_def Let_def

section \<open>Properties\<close>

subsection \<open>Auxiliary facts\<close>

lemma dropWhile_enumerate:
  "dropWhile (\<lambda>x. int (fst x) < k) (enumerate n xs) =
     enumerate (n + (nat k - n)) (drop (nat k - n) xs)"
proof (induction xs arbitrary: n)
  case Nil
  then show ?case by simp
next
  case (Cons x xs)
  show ?case
  proof (cases "int n < k")
    case True
    then have "nat k - n = Suc (nat k - Suc n)" by arith
    with True Cons.IH [of "Suc n"] show ?thesis by simp
  next
    case False
    then have "nat k - n = 0" by arith
    with False show ?thesis by simp
  qed
qed

lemma rows_from_eq: "rows_from k sh = enumerate (nat k) (drop (nat k) sh)"
  unfolding rows_from_def using dropWhile_enumerate [of k 0 sh] by simp

lemma rows_loop_enumerate:
  "rows_loop s fc (enumerate n ys) =
     map (row_values fc) (if s then takeWhile (\<lambda>r. py_any (row_values fc r)) ys else ys)"
  by (induction ys arbitrary: n) (simp_all add: Let_def)

lemma rows_eq:
  "field_list self \<noteq> [] \<Longrightarrow>
   rows self = Inr (map (row_values (length (field_list self)))
     (if stop_empty_line self
      then takeWhile (\<lambda>r. py_any (row_values (length (field_list self)) r))
             (drop (nat (first_row self)) (sheet self))
      else drop (nat (first_row self)) (sheet self)))"
  by (simp add: rows_def rows_from_eq rows_loop_enumerate Let_def)

lemma init_Inr:
  assumes "XLSXObject_init wb fields_arg sel skip_rows has_header stop_empty = Inr self"
  shows "workbook self = wb"
    and "select_sheet wb sel = Inr (sheet self)"
    and "first_row self = (if has_header then skip_rows + 1 else skip_rows)"
    and "stop_empty_line self = stop_empty"
    and "fields_truthy fields_arg \<Longrightarrow> fields_arg = Some (field_list self)"
    and "\<not> fields_truthy fields_arg \<Longrightarrow>
           infer_fields (sheet self) (first_row self) has_header = Inr (field_list self)"
  using assms
  by (auto simp: XLSXObject_init_def Let_def split: sum.splits if_splits option.splits)

lemma rows_Inr_prefix:
  assumes ys: "rows self = Inr ys"
  shows "field_list self \<noteq> []"
    and "ys = map (row_values (length (field_list self)))
                (take (length ys) (drop (nat (first_row self)) (sheet self)))"
proof -
  show ne: "field_list self \<noteq> []"
    using ys by (auto simp: rows_def Let_def split: if_splits)
  let ?fc = "length (field_list self)"
  let ?scope = "drop (nat (first_row self)) (sheet self)"
  show "ys = map (row_values ?fc) (take (length ys) ?scope)"
  proof (cases "stop_empty_line self")
    case True
    let ?tw = "takeWhile (\<lambda>r. py_any (row_values ?fc r)) ?scope"
    from True rows_eq [OF ne] have "rows self = Inr (map (row_values ?fc) ?tw)"
      by simp
    with ys have eq: "ys = map (row_values ?fc) ?tw"
      by simp
    then have "length ys = length ?tw"
      by simp
    then have "?tw = take (length ys) ?scope"
      using takeWhile_eq_take [of "\<lambda>r. py_any (row_values ?fc r)" ?scope] by simp
    with eq show ?thesis
      by simp
  next
    case False
    with rows_eq [OF ne] have "rows self = Inr (map (row_values ?fc) ?scope)"
      by simp
    with ys have "ys = map (row_values ?fc) ?scope"
      by simp
    then show ?thesis
      by (metis length_map order_refl take_all)
  qed
qed

lemma truthy_iff: "truthy v \<longleftrightarrow> \<not> spec_empty_value v"
proof (cases v)
  case (PyFloat f)
  then show ?thesis by (cases f) simp_all
qed simp_all

lemma py_any_iff: "py_any vs \<longleftrightarrow> \<not> list_all spec_empty_value vs"
  by (induction vs) (simp_all add: truthy_iff)

lemma py_next_rows_from:
  "py_next (rows_from k sh) =
     (case drop (nat k) sh of [] \<Rightarrow> Inl StopIteration | r # _ \<Rightarrow> Inr (nat k, r))"
  by (simp add: rows_from_eq py_next_def split: list.splits)

lemma infer_fields_eq:
  "infer_fields sh fr hh =
     (case drop (nat fr) sh of
        [] \<Rightarrow> Inl StopIteration
      | ref_row # _ \<Rightarrow>
          (case (if hh
                 then (case drop (nat (fr - 1)) sh of
                         [] \<Rightarrow> Inl StopIteration
                       | hdr # _ \<Rightarrow> Inr (map header_name hdr))
                 else Inr (map col_name [0..<length ref_row])) of
             Inl e \<Rightarrow> Inl e
           | Inr names \<Rightarrow> Inr (map (\<lambda>(nm, c). infer_field nm c) (zip names ref_row))))"
  by (simp add: infer_fields_def py_next_rows_from Let_def split: list.splits sum.splits)

lemma storage_type_infer_field: "storage_type (infer_field nm c) = spec_storage_type c"
  by (cases "data_type c")
     (simp_all add: infer_field_def spec_storage_type_def dict_get_def CELL_TYPES_def Let_def)

lemma split_from_words_nonempty: "w \<in> set (split_from cur s) \<Longrightarrow> w \<noteq> []"
  by (induction s arbitrary: cur) (auto split: if_splits)

lemma split_from_Nil_iff: "split_from cur s = [] \<longleftrightarrow> cur = [] \<and> list_all isspace s"
  by (induction s arbitrary: cur) auto

lemma split_from_no_space:
  "\<forall>c \<in> set s. \<not> isspace c \<Longrightarrow> split_from cur s = (if cur @ s = [] then [] else [cur @ s])"
  by (induction s arbitrary: cur) auto

lemma py_join_Nil_iff: "\<forall>w \<in> set ws. w \<noteq> [] \<Longrightarrow> py_join sep ws = [] \<longleftrightarrow> ws = []"
  by (induction sep ws rule: py_join.induct) auto

lemma header_name_Nil_iff: "header_name c = [] \<longleftrightarrow> list_all isspace (py_str (cell_value c))"
  unfolding header_name_def py_split_def
  using py_join_Nil_iff [of "split_from [] (py_str (cell_value c))" "'' ''"]
    split_from_words_nonempty [of _ "[]" "py_str (cell_value c)"]
    split_from_Nil_iff [of "[]" "py_str (cell_value c)"]
  by blast

lemma digit_char_in: "d < 10 \<Longrightarrow> digit_char d \<in> set ''0123456789''"
  unfolding digit_char_def by (rule nth_mem) simp

lemma str_nat_digits: "str_nat n \<noteq> [] \<and> set (str_nat n) \<subseteq> set ''0123456789''"
proof (induction n rule: str_nat.induct)
  case (1 n)
  show ?case
  proof (cases "n < 10")
    case True
    then show ?thesis
      using digit_char_in [of n] by (subst (1 2) str_nat.simps) simp
  next
    case False
    with "1.IH" digit_char_in [of "n mod 10"] show ?thesis
      by (subst (1 2) str_nat.simps) simp
  qed
qed

lemma digit_not_space: "c \<in> set ''0123456789'' \<Longrightarrow> \<not> isspace c"
  by (auto simp: isspace_def)

lemma str_int_no_space: "str_int i \<noteq> [] \<and> (\<forall>c \<in> set (str_int i). \<not> isspace c)"
proof -
  have "\<forall>c \<in> set (str_nat n). \<not> isspace c" for n
    using str_nat_digits [of n] digit_not_space by blast
  moreover have "\<not> isspace CHR ''-''"
    by (simp add: isspace_def)
  ultimately show ?thesis
    using str_nat_digits by (simp add: str_int_def)
qed

lemma str_nat_plain: "str_nat n \<noteq> [] \<and> (\<forall>c \<in> set (str_nat n). \<not> isspace c)"
  using str_nat_digits [of n] digit_not_space by blast

lemma plain_chars:
  "\<not> isspace CHR ''-''" "\<not> isspace CHR ''+''" "\<not> isspace CHR ''0''"
  "\<not> isspace CHR ''.''" "\<not> isspace CHR ''e''" "\<not> isspace CHR '':''"
  by (simp_all add: isspace_def)

lemma exponent_text_plain: "\<forall>c \<in> set (exponent_text x). \<not> isspace c"
  using str_nat_plain by (auto simp: exponent_text_def plain_chars)

lemma repr_decimal_plain:
  "repr_decimal m e \<noteq> [] \<and> (\<forall>c \<in> set (repr_decimal m e). \<not> isspace c)"
proof -
  obtain m' e' where me: "(if m = 0 then (0, 0) else strip_zeros m e) = (m', e')"
    by (cases "if m = 0 then (0, 0) else strip_zeros m e") blast
  have ds: "\<forall>c \<in> set (str_nat m'). \<not> isspace c"
    using str_nat_plain by blast
  have tk: "\<forall>c \<in> set (take k (str_nat m')). \<not> isspace c" for k
    using ds by (blast dest: in_set_takeD)
  have dr: "\<forall>c \<in> set (drop k (str_nat m')). \<not> isspace c" for k
    using ds by (blast dest: in_set_dropD)
  show ?thesis
    unfolding repr_decimal_def me
    using ds tk dr exponent_text_plain str_nat_plain [of m']
    by (auto simp: Let_def plain_chars)
qed

lemma float_str_plain: "float_str f \<noteq> [] \<and> (\<forall>c \<in> set (float_str f). \<not> isspace c)"
proof (cases f)
  case (Finite neg m e)
  then show ?thesis
    using repr_decimal_plain [of m e] by (auto simp: plain_chars)
next
  case (Infinity neg)
  then show ?thesis by (simp add: isspace_def)
next
  case NaN
  then show ?thesis by (simp add: isspace_def)
qed

lemma zero_pad_plain: "zero_pad w n \<noteq> [] \<and> (\<forall>c \<in> set (zero_pad w n). \<not> isspace c)"
  using str_nat_plain [of n] by (auto simp: zero_pad_def plain_chars)

lemma plain_text_name:
  "s \<noteq> [] \<Longrightarrow> \<forall>c \<in> set s. \<not> isspace c \<Longrightarrow> py_join '' '' (py_split s) = s"
  by (simp add: py_split_def split_from_no_space)

lemma split_from_space:
  "\<forall>c \<in> set a. \<not> isspace c \<Longrightarrow> isspace sp \<Longrightarrow>
   split_from cur (a @ sp # b) =
     (if cur @ a = [] then split_from [] b else (cur @ a) # split_from [] b)"
  by (induction a arbitrary: cur) auto

lemma two_words_name:
  assumes "a \<noteq> []" "b \<noteq> []" "\<forall>c \<in> set a. \<not> isspace c" "\<forall>c \<in> set b. \<not> isspace c"
  shows "py_join '' '' (py_split (a @ CHR '' '' # b)) = a @ CHR '' '' # b"
proof -
  have "isspace CHR '' ''"
    by (simp add: isspace_def)
  with assms show ?thesis
    by (simp add: py_split_def split_from_space split_from_no_space)
qed

lemma datetime_str_words:
  "\<exists>a b. datetime_str d = a @ CHR '' '' # b \<and> a \<noteq> [] \<and> b \<noteq> [] \<and>
         (\<forall>c \<in> set a. \<not> isspace c) \<and> (\<forall>c \<in> set b. \<not> isspace c)"
proof (cases d)
  case (DateTime y mo dd h mi sec us)
  let ?a = "zero_pad 4 y @ ''-'' @ zero_pad 2 mo @ ''-'' @ zero_pad 2 dd"
  let ?b = "zero_pad 2 h @ '':'' @ zero_pad 2 mi @ '':'' @ zero_pad 2 sec @
            (if us = 0 then [] else ''.'' @ zero_pad 6 us)"
  have "datetime_str d = ?a @ CHR '' '' # ?b"
    using DateTime by simp
  moreover have "?a \<noteq> []" "?b \<noteq> []"
    using zero_pad_plain by simp_all
  moreover have "\<forall>c \<in> set ?a. \<not> isspace c" "\<forall>c \<in> set ?b. \<not> isspace c"
    using zero_pad_plain by (auto simp: plain_chars)
  ultimately show ?thesis
    by blast
qed

lemma header_name_int: "cell_value c = PyInt k \<Longrightarrow> header_name c = str_int k"
  using str_int_no_space [of k] by (simp add: header_name_def plain_text_name)

lemma header_name_float: "cell_value c = PyFloat x \<Longrightarrow> header_name c = float_str x"
  using float_str_plain [of x] by (simp add: header_name_def plain_text_name)

lemma header_name_None: "cell_value c = PyNone \<Longrightarrow> header_name c = ''None''"
  by (simp add: header_name_def py_split_def isspace_def)

lemma header_name_bool:
  "cell_value c = PyBool b \<Longrightarrow> header_name c = (if b then ''True'' else ''False'')"
  by (simp add: header_name_def py_split_def isspace_def)

lemma header_name_datetime: "cell_value c = PyDateTime d \<Longrightarrow> header_name c = datetime_str d"
  using datetime_str_words [of d] two_words_name by (auto simp: header_name_def)

lemma header_name_not_str:
  "\<forall>s. cell_value c \<noteq> PyStr s \<Longrightarrow> header_name c = py_str (cell_value c)"
  by (cases "cell_value c")
     (simp_all add: header_name_None header_name_bool header_name_int header_name_float
        header_name_datetime)

lemma header_name_Nil_iff_str:
  "header_name c = [] \<longleftrightarrow> (\<exists>s. cell_value c = PyStr s \<and> list_all isspace s)"
proof (cases "cell_value c")
  case PyNone
  then show ?thesis by (simp add: header_name_None)
next
  case (PyBool b)
  then show ?thesis by (simp add: header_name_bool)
next
  case (PyInt k)
  then show ?thesis
    using str_int_no_space [of k] by (simp add: header_name_int)
next
  case (PyFloat x)
  then show ?thesis
    using float_str_plain [of x] by (simp add: header_name_float)
next
  case (PyStr s)
  then show ?thesis by (simp add: header_name_Nil_iff)
next
  case (PyDateTime d)
  then show ?thesis
    using datetime_str_words [of d] by (auto simp: header_name_datetime)
qed

subsection \<open>The tuples of \<^verbatim>\<open>rows\<close>\<close>

text \<open>
  Claim C1, as amended. Each tuple that \<^verbatim>\<open>rows\<close> yields holds the values of the first
  \<open>field_count\<close> cells of its physical row, in order: the \<open>i\<close>-th tuple comes from the
  \<open>i\<close>-th row at or after \<open>first_row\<close>, and its width is the smaller of \<open>field_count\<close>
  and the number of cells of that row. Extra trailing cells are dropped; a row with fewer
  cells gives a shorter tuple, and nothing is padded.
\<close>

theorem rows_tuple_widths:
  assumes "rows self = Inr ys"
  shows "length ys \<le> length (drop (nat (first_row self)) (sheet self)) \<and>
         (\<forall>i<length ys.
            ys ! i = map cell_value (take (length (field_list self))
                                      (drop (nat (first_row self)) (sheet self) ! i)) \<and>
            length (ys ! i) = min (length (field_list self))
                                  (length (drop (nat (first_row self)) (sheet self) ! i)))"
proof -
  let ?fc = "length (field_list self)"
  let ?scope = "drop (nat (first_row self)) (sheet self)"
  have eq: "ys = map (row_values ?fc) (take (length ys) ?scope)"
    using assms by (rule rows_Inr_prefix(2))
  then have "length ys = length (take (length ys) ?scope)"
    by (metis length_map)
  then have le: "length ys \<le> length ?scope"
    by simp
  have "ys ! i = map cell_value (take ?fc (?scope ! i)) \<and>
        length (ys ! i) = min ?fc (length (?scope ! i))" if "i < length ys" for i
  proof -
    from that le have "ys ! i = row_values ?fc (?scope ! i)"
      by (subst eq) simp
    then show ?thesis
      by (simp add: row_values_def)
  qed
  with le show ?thesis
    by blast
qed

theorem rows_tuple_widths_witness:
  "rows ragged_object = Inr [[PyInt 1, PyInt 2], [PyInt 3]] \<and>
   length [[PyInt 1, PyInt 2], [PyInt 3]]
     \<le> length (drop (nat (first_row ragged_object)) (sheet ragged_object)) \<and>
   [[PyInt 1, PyInt 2], [PyInt 3]] ! 1 =
     map cell_value (take (length (field_list ragged_object))
                       (drop (nat (first_row ragged_object)) (sheet ragged_object) ! 1)) \<and>
   length ([[PyInt 1, PyInt 2], [PyInt 3]] ! 1) =
     min (length (field_list ragged_object))
         (length (drop (nat (first_row ragged_object)) (sheet ragged_object) ! 1)) \<and>
   length (field_list ragged_object) = 2 \<and>
   length (drop (nat (first_row ragged_object)) (sheet ragged_object) ! 1) = 1"
proof -
  have h: "rows ragged_object = Inr [[PyInt 1, PyInt 2], [PyInt 3]]"
    by (simp add: rows_defs ragged_object_def ragged_sheet_def str_cell_def num_cell_def)
  have i: "(1::nat) < length [[PyInt 1, PyInt 2], [PyInt 3]]"
    by simp
  have w: "length (field_list ragged_object) = 2 \<and>
           length (drop (nat (first_row ragged_object)) (sheet ragged_object) ! 1) = 1"
    by (simp add: ragged_object_def ragged_sheet_def str_cell_def num_cell_def)
  from rows_tuple_widths [OF h] i h w show ?thesis
    by blast
qed

text \<open>
  Claim C1 as stated fails: with two fields, the physical row that holds the single cell
  \<open>3\<close> is yielded as the one-element tuple \<open>(3,)\<close>, not as \<open>(3, None)\<close>.
\<close>

theorem rows_no_padding_counterexample:
  "XLSXObject_init ragged_book None (SheetInt 0) 0 True False = Inr ragged_object \<and>
   length (field_list ragged_object) = 2 \<and>
   sheet ragged_object ! 2 = [num_cell 3] \<and>
   rows ragged_object = Inr [[PyInt 1, PyInt 2], [PyInt 3]] \<and>
   rows ragged_object \<noteq> Inr [[PyInt 1, PyInt 2], [PyInt 3, PyNone]]"
  by (simp add: init_defs rows_defs ragged_book_def ragged_object_def ragged_sheet_def str_cell_def num_cell_def)

subsection \<open>Inferred storage types\<close>

text \<open>
  Claim C2, as amended. When the schema is inferred, the fields are those of the first
  \<open>n\<close> cells of the reference row (the first row at or after \<open>first_row\<close>), in order, where
  \<open>n\<close> is the smaller of the widths of the header row and of the reference row with a header,
  and the width of the reference row without one. Each of these fields takes its storage
  type from its cell by the rule of the specification: \<open>date\<close> when the date flag is set,
  whatever the raw type tag, otherwise the entry of the fixed table for the tag, and
  \<open>unknown\<close> for a tag outside it. The cells of the reference row past the width of the
  header row get no field.
\<close>

theorem inferred_storage_types:
  assumes "\<not> fields_truthy fields_arg"
    and "XLSXObject_init wb fields_arg sel skip_rows has_header stop_empty = Inr self"
    and "drop (nat (first_row self)) (sheet self) = ref_row # rest"
  shows "length (field_list self) =
           (if has_header
            then min (length (sheet self ! nat (first_row self - 1))) (length ref_row)
            else length ref_row) \<and>
         (\<forall>i<length (field_list self).
            storage_type (field_list self ! i) = spec_storage_type (ref_row ! i))"
proof -
  from init_Inr(6) [OF assms(2) assms(1)]
  have inf: "infer_fields (sheet self) (first_row self) has_header = Inr (field_list self)" .
  have "\<exists>names. map (\<lambda>(nm, c). infer_field nm c) (zip names ref_row) = field_list self \<and>
          length names = (if has_header then length (sheet self ! nat (first_row self - 1))
                          else length ref_row)"
  proof (cases has_header)
    case True
    with inf assms(3) obtain hdr tl where
      hdr: "drop (nat (first_row self - 1)) (sheet self) = hdr # tl" and
      fl: "map (\<lambda>(nm, c). infer_field nm c) (zip (map header_name hdr) ref_row) = field_list self"
      by (auto simp: infer_fields_eq split: list.splits sum.splits)
    from hdr have "sheet self ! nat (first_row self - 1) = hdr"
      by (rule nth_via_drop)
    with fl True show ?thesis
      by (intro exI [of _ "map header_name hdr"]) simp
  next
    case False
    with inf assms(3) show ?thesis
      by (intro exI [of _ "map col_name [0..<length ref_row]"])
         (auto simp: infer_fields_eq split: list.splits sum.splits)
  qed
  then obtain names where
    fl: "field_list self = map (\<lambda>(nm, c). infer_field nm c) (zip names ref_row)" and
    len: "length names = (if has_header then length (sheet self ! nat (first_row self - 1))
                          else length ref_row)"
    by metis
  have "length (field_list self) = min (length names) (length ref_row)"
    by (simp add: fl)
  with len have "length (field_list self) =
           (if has_header
            then min (length (sheet self ! nat (first_row self - 1))) (length ref_row)
            else length ref_row)"
    by simp
  moreover have "storage_type (field_list self ! i) = spec_storage_type (ref_row ! i)"
    if "i < length (field_list self)" for i
    using that by (simp add: fl storage_type_infer_field)
  ultimately show ?thesis
    by blast
qed

theorem inferred_storage_types_witness:
  "\<not> fields_truthy None \<and>
   XLSXObject_init [(''T'', typed_sheet)] None (SheetStr ''T'') 1 False False = Inr typed_object \<and>
   drop (nat (first_row typed_object)) (sheet typed_object) =
     [date_cell,
      \<lparr>cell_value = PyBool True, is_date = False, data_type = TYPE_BOOL\<rparr>,
      \<lparr>cell_value = PyNone, is_date = False, data_type = TYPE_OTHER\<rparr>] # [] \<and>
   length (field_list typed_object) = 3 \<and>
   storage_type (field_list typed_object ! 0) = spec_storage_type date_cell \<and>
   storage_type (field_list typed_object ! 0) = ''date'' \<and>
   XLSXObject_init [(''H'', short_header_sheet)] None (SheetInt 0) 0 True False
     = Inr short_header_object \<and>
   drop (nat (first_row short_header_object)) (sheet short_header_object) =
     [num_cell 1, str_cell ''x'', date_cell] # [] \<and>
   length (field_list short_header_object) = min 1 3 \<and>
   storage_type (field_list short_header_object ! 0) = spec_storage_type (num_cell 1)"
proof -
  have h1: "\<not> fields_truthy None"
    by simp
  have h2: "XLSXObject_init [(''T'', typed_sheet)] None (SheetStr ''T'') 1 False False
              = Inr typed_object"
    by code_simp
  have h3: "drop (nat (first_row typed_object)) (sheet typed_object) =
     [date_cell,
      \<lparr>cell_value = PyBool True, is_date = False, data_type = TYPE_BOOL\<rparr>,
      \<lparr>cell_value = PyNone, is_date = False, data_type = TYPE_OTHER\<rparr>] # []"
    by (simp add: typed_object_def typed_sheet_def)
  have g2: "XLSXObject_init [(''H'', short_header_sheet)] None (SheetInt 0) 0 True False
              = Inr short_header_object"
    by code_simp
  have g3: "drop (nat (first_row short_header_object)) (sheet short_header_object) =
     [num_cell 1, str_cell ''x'', date_cell] # []"
    by (simp add: short_header_object_def short_header_sheet_def)
  have t: "length (field_list typed_object) = 3 \<and>
           storage_type (field_list typed_object ! 0) = spec_storage_type date_cell"
    using inferred_storage_types [OF h1 h2 h3] by simp
  have d: "storage_type (field_list typed_object ! 0) = ''date''"
    by (simp add: typed_object_def)
  have s: "length (field_list short_header_object) = min 1 3 \<and>
           storage_type (field_list short_header_object ! 0) = spec_storage_type (num_cell 1)"
    using inferred_storage_types [OF h1 g2 g3]
    by (simp add: short_header_object_def short_header_sheet_def)
  from h1 h2 h3 g2 g3 t d s show ?thesis
    by blast
qed

text \<open>
  Claim C2 as stated fails for a reference row wider than the header row: under the header
  \<open>a\<close>, the third cell of the reference row is a date cell, and no field, so no storage type
  \<open>date\<close>, is inferred for it.
\<close>

theorem short_header_counterexample:
  "XLSXObject_init [(''H'', short_header_sheet)] None (SheetInt 0) 0 True False
     = Inr short_header_object \<and>
   sheet short_header_object ! 1 = [num_cell 1, str_cell ''x'', date_cell] \<and>
   is_date date_cell \<and>
   map storage_type (field_list short_header_object) = [''float''] \<and>
   map spec_storage_type (sheet short_header_object ! 1) = [''float'', ''string'', ''date'']"
  by code_simp

subsection \<open>Stopping at an empty line\<close>

text \<open>
  Claim C3. With \<open>stop_empty_line\<close> set, if the rows at or after \<open>first_row\<close> are
  \<open>pre\<close>, then a row \<open>r\<close> whose first \<open>field_count\<close> values are all empty (null, empty
  string, zero or false), then \<open>post\<close>, and no row of \<open>pre\<close> has its first \<open>field_count\<close>
  values all empty, then \<^verbatim>\<open>rows\<close> yields exactly the tuples of \<open>pre\<close>: it stops at \<open>r\<close>
  without yielding it, whatever \<open>post\<close> holds and whatever the cells of \<open>r\<close> past the first
  \<open>field_count\<close> hold. The tuples of \<open>pre\<close> are the ones yielded without \<open>stop_empty_line\<close>.
\<close>

theorem rows_stop_at_empty_line:
  assumes "field_list self \<noteq> []"
    and "stop_empty_line self"
    and "drop (nat (first_row self)) (sheet self) = pre @ r # post"
    and "\<forall>p \<in> set pre.
           \<not> list_all spec_empty_value (map cell_value (take (length (field_list self)) p))"
    and "list_all spec_empty_value (map cell_value (take (length (field_list self)) r))"
  shows "rows self =
           Inr (map (\<lambda>p. map cell_value (take (length (field_list self)) p)) pre) \<and>
         rows (self\<lparr>stop_empty_line := False\<rparr>) =
           Inr (map (\<lambda>p. map cell_value (take (length (field_list self)) p)) (pre @ r # post))"
proof -
  let ?fc = "length (field_list self)"
  let ?P = "\<lambda>r. py_any (row_values ?fc r)"
  have rv: "row_values ?fc = (\<lambda>p. map cell_value (take ?fc p))"
    by (simp add: row_values_def fun_eq_iff)
  have "\<not> ?P r"
    using assms(5) by (simp add: py_any_iff row_values_def)
  then have "takeWhile ?P (pre @ r # post) = takeWhile ?P pre"
    by (rule takeWhile_tail)
  moreover have "takeWhile ?P pre = pre"
    using assms(4) by (simp add: py_any_iff row_values_def)
  ultimately have tw: "takeWhile ?P (pre @ r # post) = pre"
    by simp
  have "rows self = Inr (map (row_values ?fc) pre)"
    using rows_eq [OF assms(1)] assms(2,3) tw by simp
  moreover have "rows (self\<lparr>stop_empty_line := False\<rparr>) =
                   Inr (map (row_values ?fc) (pre @ r # post))"
    using rows_eq [of "self\<lparr>stop_empty_line := False\<rparr>"] assms(1,3) by simp
  ultimately show ?thesis
    by (simp only: rv)
qed

theorem rows_stop_at_empty_line_witness:
  "field_list gap_object \<noteq> [] \<and> stop_empty_line gap_object \<and>
   length (field_list gap_object) = 2 \<and>
   drop (nat (first_row gap_object)) (sheet gap_object) =
     [[str_cell ''Ann'', float_cell (Finite False 95 (- 1))]]
     @ [null_cell, float_cell (Finite False 0 0), str_cell ''note'']
     # [[str_cell ''Bo'', float_cell (Finite False 8 0)]] \<and>
   \<not> list_all spec_empty_value
       (map cell_value (take (length (field_list gap_object))
          [str_cell ''Ann'', float_cell (Finite False 95 (- 1))])) \<and>
   list_all spec_empty_value
     (map cell_value (take (length (field_list gap_object))
        [null_cell, float_cell (Finite False 0 0), str_cell ''note''])) \<and>
   rows gap_object = Inr [[PyStr ''Ann'', PyFloat (Finite False 95 (- 1))]] \<and>
   rows (gap_object\<lparr>stop_empty_line := False\<rparr>) =
     Inr [[PyStr ''Ann'', PyFloat (Finite False 95 (- 1))],
          [PyNone, PyFloat (Finite False 0 0)],
          [PyStr ''Bo'', PyFloat (Finite False 8 0)]]"
proof -
  have h1: "field_list gap_object \<noteq> []"
    by (simp add: gap_object_def)
  have h2: "stop_empty_line gap_object"
    by (simp add: gap_object_def)
  have fc: "length (field_list gap_object) = 2"
    by (simp add: gap_object_def)
  have h3: "drop (nat (first_row gap_object)) (sheet gap_object) =
     [[str_cell ''Ann'', float_cell (Finite False 95 (- 1))]]
     @ [null_cell, float_cell (Finite False 0 0), str_cell ''note'']
     # [[str_cell ''Bo'', float_cell (Finite False 8 0)]]"
    by (simp add: gap_object_def gap_sheet_def)
  have h4': "\<not> list_all spec_empty_value
       (map cell_value (take (length (field_list gap_object))
          [str_cell ''Ann'', float_cell (Finite False 95 (- 1))]))"
    by (simp add: fc str_cell_def float_cell_def)
  then have h4: "\<forall>p \<in> set [[str_cell ''Ann'', float_cell (Finite False 95 (- 1))]].
      \<not> list_all spec_empty_value (map cell_value (take (length (field_list gap_object)) p))"
    by simp
  have h5: "list_all spec_empty_value
     (map cell_value (take (length (field_list gap_object))
        [null_cell, float_cell (Finite False 0 0), str_cell ''note'']))"
    by (simp add: fc null_cell_def float_cell_def)
  from rows_stop_at_empty_line [OF h1 h2 h3 h4 h5] h1 h2 fc h3 h4' h5 show ?thesis
    by (simp add: str_cell_def float_cell_def null_cell_def)
qed

subsection \<open>The first data row\<close>

text \<open>
  Claim C4. For an extractor built with \<open>skip_rows\<close> and \<open>has_header\<close>, \<open>first_row\<close> is
  \<open>skip_rows + 1\<close> when \<open>has_header\<close> is true and \<open>skip_rows\<close> otherwise; every indexed
  row that the loop of \<^verbatim>\<open>rows\<close> iterates over has an index not below \<open>first_row\<close>, and the
  tuples yielded are those of a prefix of the rows from index \<open>first_row\<close> on.
\<close>

theorem rows_start_at_first_row:
  assumes "XLSXObject_init wb fields_arg sel skip_rows has_header stop_empty = Inr self"
  shows "first_row self = (if has_header then skip_rows + 1 else skip_rows) \<and>
         (\<forall>x \<in> set (rows_from (first_row self) (sheet self)). first_row self \<le> int (fst x)) \<and>
         (\<forall>ys. rows self = Inr ys \<longrightarrow>
            ys = map (row_values (length (field_list self)))
                   (take (length ys) (drop (nat (first_row self)) (sheet self))))"
proof (intro conjI allI impI ballI)
  show "first_row self = (if has_header then skip_rows + 1 else skip_rows)"
    using init_Inr(3) [OF assms] .
next
  fix x assume "x \<in> set (rows_from (first_row self) (sheet self))"
  then show "first_row self \<le> int (fst x)"
    by (auto simp: rows_from_eq in_set_enumerate_eq)
next
  fix ys assume "rows self = Inr ys"
  then show "ys = map (row_values (length (field_list self)))
                   (take (length ys) (drop (nat (first_row self)) (sheet self)))"
    by (rule rows_Inr_prefix(2))
qed

theorem rows_start_at_first_row_witness:
  "XLSXObject_init ragged_book None (SheetInt 0) 0 True False = Inr ragged_object \<and>
   first_row ragged_object = (if True then 0 + 1 else 0) \<and>
   rows_from (first_row ragged_object) (sheet ragged_object) =
     [(1, [num_cell 1, num_cell 2]), (2, [num_cell 3])] \<and>
   first_row ragged_object \<le> int (fst (1::nat, [num_cell 1, num_cell 2])) \<and>
   rows ragged_object = Inr [[PyInt 1, PyInt 2], [PyInt 3]] \<and>
   [[PyInt 1, PyInt 2], [PyInt 3]] =
     map (row_values (length (field_list ragged_object)))
       (take (length [[PyInt 1, PyInt 2], [PyInt 3]])
          (drop (nat (first_row ragged_object)) (sheet ragged_object)))"
proof -
  have h: "XLSXObject_init ragged_book None (SheetInt 0) 0 True False = Inr ragged_object"
    by (simp add: init_defs rows_defs ragged_book_def ragged_object_def ragged_sheet_def str_cell_def num_cell_def)
  have r: "rows ragged_object = Inr [[PyInt 1, PyInt 2], [PyInt 3]]"
    by (simp add: init_defs rows_defs ragged_book_def ragged_object_def ragged_sheet_def str_cell_def num_cell_def)
  have f: "rows_from (first_row ragged_object) (sheet ragged_object) =
             [(1, [num_cell 1, num_cell 2]), (2, [num_cell 3])]"
    by (simp add: init_defs rows_defs ragged_book_def ragged_object_def ragged_sheet_def str_cell_def num_cell_def)
  then have m: "(1::nat, [num_cell 1, num_cell 2])
                  \<in> set (rows_from (first_row ragged_object) (sheet ragged_object))"
    by simp
  from rows_start_at_first_row [OF h] h r f m show ?thesis
    by blast
qed

subsection \<open>The length\<close>

text \<open>
  Claim C5, as amended. \<^verbatim>\<open>_nrows\<close> counts every physical row of the sheet and \<^verbatim>\<open>__len__\<close>
  computes that count minus \<open>first_row\<close>. The length query \<^verbatim>\<open>len(extractor)\<close> returns
  exactly this number when the sheet has at least \<open>first_row\<close> rows (and the number fits an
  index); when the sheet has fewer rows the number is negative and the query raises
  \<^verbatim>\<open>ValueError\<close>.
\<close>

theorem length_query_value:
  "nrows self = int (length (sheet self)) \<and>
   len self = int (length (sheet self)) - first_row self \<and>
   (first_row self \<le> int (length (sheet self)) \<and>
    int (length (sheet self)) - first_row self \<le> sys_maxsize \<longrightarrow>
      builtin_len self = Inr (int (length (sheet self)) - first_row self)) \<and>
   (int (length (sheet self)) < first_row self \<longrightarrow>
      builtin_len self = Inl (ValueError ''__len__() should return >= 0''))"
proof -
  have n: "nrows self = int (length (sheet self))"
    unfolding nrows_def by (simp add: sum_list_triv)
  then have l: "len self = int (length (sheet self)) - first_row self"
    by (simp add: len_def)
  from n l show ?thesis
    by (simp add: builtin_len_def Let_def)
qed

theorem length_query_value_witness:
  "first_row ragged_object \<le> int (length (sheet ragged_object)) \<and>
   int (length (sheet ragged_object)) - first_row ragged_object \<le> sys_maxsize \<and>
   nrows ragged_object = 3 \<and> len ragged_object = 2 \<and> builtin_len ragged_object = Inr 2"
proof -
  have h: "first_row ragged_object \<le> int (length (sheet ragged_object)) \<and>
           int (length (sheet ragged_object)) - first_row ragged_object \<le> sys_maxsize"
    by (simp add: ragged_object_def ragged_sheet_def sys_maxsize_def)
  have v: "int (length (sheet ragged_object)) = 3 \<and> first_row ragged_object = 1"
    by (simp add: ragged_object_def ragged_sheet_def)
  from length_query_value [of ragged_object] h v show ?thesis
    by simp
qed

text \<open>
  Claim C5 as stated fails for an extractor with supplied fields over a sheet with fewer
  rows than \<open>first_row\<close>: over the sheet with no row, \<^verbatim>\<open>__len__\<close> computes \<open>-1\<close> and the
  length query raises \<^verbatim>\<open>ValueError\<close> instead of returning a number.
\<close>

theorem negative_length_counterexample:
  "XLSXObject_init empty_book (Some [\<lparr>name = ''a'', storage_type = ''string''\<rparr>])
     (SheetInt 0) 0 True False = Inr headless_object \<and>
   len headless_object = - 1 \<and>
   builtin_len headless_object = Inl (ValueError ''__len__() should return >= 0'')"
  by code_simp

subsection \<open>An explicit schema\<close>

text \<open>
  Claim C6, as amended. A supplied field list that is not empty is kept as it is, and no
  row of the sheet is read: construction succeeds for any sheet the selector finds.
\<close>

theorem explicit_fields_kept:
  assumes "fs \<noteq> []"
    and "select_sheet wb sel = Inr sh"
  shows "XLSXObject_init wb (Some fs) sel skip_rows has_header stop_empty =
           Inr \<lparr>workbook = wb, sheet = sh,
                first_row = (if has_header then skip_rows + 1 else skip_rows),
                stop_empty_line = stop_empty, field_list = fs\<rparr>"
  using assms by (simp add: XLSXObject_init_def Let_def)

theorem explicit_fields_kept_witness:
  "[\<lparr>name = ''a'', storage_type = ''string''\<rparr>] \<noteq> [] \<and>
   select_sheet empty_book (SheetInt 0) = Inr [] \<and>
   XLSXObject_init empty_book (Some [\<lparr>name = ''a'', storage_type = ''string''\<rparr>])
       (SheetInt 0) 0 True False =
     Inr \<lparr>workbook = empty_book, sheet = [],
          first_row = (if True then 0 + 1 else 0),
          stop_empty_line = False, field_list = [\<lparr>name = ''a'', storage_type = ''string''\<rparr>]\<rparr>"
proof -
  have h1: "[\<lparr>name = ''a'', storage_type = ''string''\<rparr>] \<noteq> []"
    by simp
  have h2: "select_sheet empty_book (SheetInt 0) = Inr []"
    by (simp add: select_sheet_def py_index_def empty_book_def)
  from explicit_fields_kept [OF h1 h2] h1 h2 show ?thesis
    by blast
qed

text \<open>
  Claim C6 as stated fails for a supplied field list that is empty: it counts as absent, and
  the fields are inferred from the sheet.
\<close>

theorem empty_fields_override_counterexample:
  "XLSXObject_init ragged_book (Some []) (SheetInt 0) 0 True False = Inr ragged_object \<and>
   field_list ragged_object \<noteq> []"
  by (simp add: init_defs ragged_book_def ragged_object_def ragged_sheet_def str_cell_def num_cell_def)

subsection \<open>A sheet with no data row\<close>

text \<open>
  Claim C7. When the sheet has no row at or after \<open>first_row\<close> and no (non-empty) field
  list is supplied, construction fails, with the \<^verbatim>\<open>StopIteration\<close> that \<^verbatim>\<open>next\<close> raises; no
  extractor, and so no empty schema, is produced.
\<close>

theorem empty_sheet_fails:
  assumes "select_sheet wb sel = Inr sh"
    and "\<not> fields_truthy fields_arg"
    and "int (length sh) \<le> (if has_header then skip_rows + 1 else skip_rows)"
  shows "XLSXObject_init wb fields_arg sel skip_rows has_header stop_empty = Inl StopIteration"
proof -
  let ?fr = "if has_header then skip_rows + 1 else skip_rows"
  from assms(3) have "drop (nat ?fr) sh = []"
    by simp
  then have "infer_fields sh ?fr has_header = Inl StopIteration"
    by (simp add: infer_fields_eq)
  with assms(1,2) show ?thesis
    by (simp add: XLSXObject_init_def Let_def)
qed

theorem empty_sheet_fails_witness:
  "select_sheet [(''H'', [[str_cell ''A'']])] (SheetStr ''H'') = Inr [[str_cell ''A'']] \<and>
   \<not> fields_truthy None \<and>
   int (length [[str_cell ''A'']]) \<le> (if True then 0 + 1 else 0) \<and>
   XLSXObject_init [(''H'', [[str_cell ''A'']])] None (SheetStr ''H'') 0 True False
     = Inl StopIteration"
proof -
  have h1: "select_sheet [(''H'', [[str_cell ''A'']])] (SheetStr ''H'') = Inr [[str_cell ''A'']]"
    by (simp add: select_sheet_def)
  have h2: "\<not> fields_truthy None"
    by simp
  have h3: "int (length [[str_cell ''A'']]) \<le> (if True then 0 + 1 else 0)"
    by simp
  from empty_sheet_fails [OF h1 h2 h3] h1 h2 h3 show ?thesis
    by blast
qed

subsection \<open>The read-only store\<close>

text \<open>
  Claim C8. \<^verbatim>\<open>create\<close> always raises the error labelled \<open>XLSX store is read-only\<close>, and
  leaves the store as it was.
\<close>

theorem create_read_only:
  "fst (create s nm) = Inl (BubblesError ''XLSX store is read-only'') \<and> snd (create s nm) = s"
  by (simp add: create_def)

theorem create_read_only_witness:
  "create \<lparr>resource = ''book.xlsx'', encoding = None, book_cache = Some ragged_book\<rparr> ''Sheet2'' =
     (Inl (BubblesError ''XLSX store is read-only''),
      \<lparr>resource = ''book.xlsx'', encoding = None, book_cache = Some ragged_book\<rparr>)"
  using create_read_only
    [of "\<lparr>resource = ''book.xlsx'', encoding = None, book_cache = Some ragged_book\<rparr>" "''Sheet2''"]
  by (simp add: prod_eq_iff)

subsection \<open>A reference row with no cell\<close>

text \<open>
  Claim C9. When the reference row has no cell and the schema is inferred, construction
  succeeds with an empty field list, and \<^verbatim>\<open>rows\<close> on that extractor raises the error
  \<open>Fields are not initialized\<close>.
\<close>

theorem empty_reference_row:
  assumes "select_sheet wb sel = Inr sh"
    and "\<not> fields_truthy fields_arg"
    and "drop (nat (if has_header then skip_rows + 1 else skip_rows)) sh = [] # rest"
  shows "XLSXObject_init wb fields_arg sel skip_rows has_header stop_empty =
           Inr \<lparr>workbook = wb, sheet = sh,
                first_row = (if has_header then skip_rows + 1 else skip_rows),
                stop_empty_line = stop_empty, field_list = []\<rparr> \<and>
         rows \<lparr>workbook = wb, sheet = sh,
               first_row = (if has_header then skip_rows + 1 else skip_rows),
               stop_empty_line = stop_empty, field_list = []\<rparr> =
           Inl (RuntimeError ''Fields are not initialized'')"
proof -
  define fr where "fr = (if has_header then skip_rows + 1 else skip_rows)"
  have ref: "drop (nat fr) sh = [] # rest"
    using assms(3) by (simp only: fr_def)
  then have "nat fr < length sh"
    by (metis drop_eq_Nil list.distinct(1) not_le)
  then have "nat (fr - 1) < length sh"
    by arith
  then have "drop (nat (fr - 1)) sh \<noteq> []"
    by simp
  with ref have "infer_fields sh fr has_header = Inr []"
    by (simp add: infer_fields_eq split: list.splits)
  with assms(1,2) have "XLSXObject_init wb fields_arg sel skip_rows has_header stop_empty =
           Inr \<lparr>workbook = wb, sheet = sh, first_row = fr,
                stop_empty_line = stop_empty, field_list = []\<rparr>"
    by (simp add: XLSXObject_init_def Let_def fr_def)
  then show ?thesis
    by (simp add: rows_def fr_def)
qed

theorem empty_reference_row_witness:
  "select_sheet no_cell_book (SheetInt 0) = Inr no_cell_sheet \<and>
   \<not> fields_truthy None \<and>
   drop (nat (if True then 0 + 1 else 0)) no_cell_sheet = [] # [] \<and>
   XLSXObject_init no_cell_book None (SheetInt 0) 0 True False =
     Inr \<lparr>workbook = no_cell_book, sheet = no_cell_sheet,
          first_row = (if True then 0 + 1 else 0),
          stop_empty_line = False, field_list = []\<rparr> \<and>
   rows \<lparr>workbook = no_cell_book, sheet = no_cell_sheet,
         first_row = (if True then 0 + 1 else 0),
         stop_empty_line = False, field_list = []\<rparr> =
     Inl (RuntimeError ''Fields are not initialized'')"
proof -
  have h1: "select_sheet no_cell_book (SheetInt 0) = Inr no_cell_sheet"
    by (simp add: select_sheet_def py_index_def no_cell_book_def no_cell_sheet_def)
  have h2: "\<not> fields_truthy None"
    by simp
  have h3: "drop (nat (if True then 0 + 1 else 0)) no_cell_sheet = [] # []"
    by (simp add: no_cell_book_def no_cell_sheet_def)
  from empty_reference_row [OF h1 h2 h3] h1 h2 h3 show ?thesis
    by blast
qed

subsection \<open>Names from the header row\<close>

text \<open>
  Claim C10, as amended. With a header, the name of the \<open>i\<close>-th field is the text
  (\<^verbatim>\<open>str\<close>) of the \<open>i\<close>-th header cell's value with its whitespace runs collapsed: a null
  header cell gives the name \<open>None\<close>, a numeric header cell gives its decimal text (that of
  the integer, or that of the float), every header cell that does not hold a string gives
  the text of its value unchanged, and the name is empty exactly when the header cell
  holds a string that is empty or all whitespace.
\<close>

theorem header_names:
  assumes "\<not> fields_truthy fields_arg"
    and "XLSXObject_init wb fields_arg sel skip_rows True stop_empty = Inr self"
    and "drop (nat (first_row self - 1)) (sheet self) = hdr # rest"
    and "i < length (field_list self)"
  shows "i < length hdr \<and>
         name (field_list self ! i) = py_join '' '' (py_split (py_str (cell_value (hdr ! i)))) \<and>
         (cell_value (hdr ! i) = PyNone \<longrightarrow> name (field_list self ! i) = ''None'') \<and>
         (\<forall>k. cell_value (hdr ! i) = PyInt k \<longrightarrow> name (field_list self ! i) = str_int k) \<and>
         (\<forall>x. cell_value (hdr ! i) = PyFloat x \<longrightarrow> name (field_list self ! i) = float_str x) \<and>
         ((\<forall>s. cell_value (hdr ! i) \<noteq> PyStr s) \<longrightarrow>
            name (field_list self ! i) = py_str (cell_value (hdr ! i))) \<and>
         (name (field_list self ! i) = [] \<longleftrightarrow>
            (\<exists>s. cell_value (hdr ! i) = PyStr s \<and> list_all isspace s))"
proof -
  from init_Inr(6) [OF assms(2) assms(1)]
  have inf: "infer_fields (sheet self) (first_row self) True = Inr (field_list self)" .
  have "\<exists>ref_row. map (\<lambda>(nm, c). infer_field nm c) (zip (map header_name hdr) ref_row)
          = field_list self"
    using inf assms(3)
    by (auto simp: infer_fields_eq split: list.splits sum.splits)
  then obtain ref_row where
    fl: "field_list self = map (\<lambda>(nm, c). infer_field nm c) (zip (map header_name hdr) ref_row)"
    by metis
  with assms(4) have i: "i < length hdr" "i < length ref_row"
    by simp_all
  then have nm: "name (field_list self ! i) = header_name (hdr ! i)"
    by (simp add: fl infer_field_def Let_def)
  show ?thesis
  proof (intro conjI allI impI)
    show "i < length hdr"
      by (rule i(1))
  next
    show "name (field_list self ! i) = py_join '' '' (py_split (py_str (cell_value (hdr ! i))))"
      by (simp add: nm header_name_def)
  next
    assume "cell_value (hdr ! i) = PyNone"
    then show "name (field_list self ! i) = ''None''"
      by (simp add: nm header_name_None)
  next
    fix k assume "cell_value (hdr ! i) = PyInt k"
    then show "name (field_list self ! i) = str_int k"
      by (simp add: nm header_name_int)
  next
    fix x assume "cell_value (hdr ! i) = PyFloat x"
    then show "name (field_list self ! i) = float_str x"
      by (simp add: nm header_name_float)
  next
    assume "\<forall>s. cell_value (hdr ! i) \<noteq> PyStr s"
    then show "name (field_list self ! i) = py_str (cell_value (hdr ! i))"
      unfolding nm by (rule header_name_not_str)
  next
    show "name (field_list self ! i) = [] \<longleftrightarrow>
            (\<exists>s. cell_value (hdr ! i) = PyStr s \<and> list_all isspace s)"
      unfolding nm by (rule header_name_Nil_iff_str)
  qed
qed

theorem header_names_witness:
  "\<not> fields_truthy None \<and>
   XLSXObject_init [(''O'', odd_header_sheet)] None (SheetInt 0) 0 True False
     = Inr odd_header_object \<and>
   drop (nat (first_row odd_header_object - 1)) (sheet odd_header_object) =
     [null_cell, num_cell (- 12), float_cell (Finite False 15 (- 1)), date_cell,
      str_cell [CHR ''a'', CHR 0x0A, CHR '' '', CHR ''b'']]
     # [[str_cell ''v'', str_cell ''w'', str_cell ''x'', str_cell ''y'', str_cell ''z'']] \<and>
   (2::nat) < length (field_list odd_header_object) \<and>
   map name (field_list odd_header_object) =
     [''None'', ''-12'', ''1.5'', ''2014-12-31 00:00:00'', ''a b''] \<and>
   name (field_list odd_header_object ! 2) = float_str (Finite False 15 (- 1)) \<and>
   float_str (Finite False 15 (- 1)) = ''1.5''"
proof -
  have h1: "\<not> fields_truthy None"
    by simp
  have h2: "XLSXObject_init [(''O'', odd_header_sheet)] None (SheetInt 0) 0 True False
              = Inr odd_header_object"
    by code_simp
  have h3: "drop (nat (first_row odd_header_object - 1)) (sheet odd_header_object) =
     [null_cell, num_cell (- 12), float_cell (Finite False 15 (- 1)), date_cell,
      str_cell [CHR ''a'', CHR 0x0A, CHR '' '', CHR ''b'']]
     # [[str_cell ''v'', str_cell ''w'', str_cell ''x'', str_cell ''y'', str_cell ''z'']]"
    by (simp add: odd_header_object_def odd_header_sheet_def)
  have h4: "(2::nat) < length (field_list odd_header_object)"
    by (simp add: odd_header_object_def)
  have h5: "map name (field_list odd_header_object) =
              [''None'', ''-12'', ''1.5'', ''2014-12-31 00:00:00'', ''a b'']"
    by (simp add: odd_header_object_def)
  have h6: "float_str (Finite False 15 (- 1)) = ''1.5''"
    by code_simp
  from header_names [OF h1 h2 h3 h4]
  have "\<forall>x. cell_value ([null_cell, num_cell (- 12), float_cell (Finite False 15 (- 1)), date_cell,
                           str_cell [CHR ''a'', CHR 0x0A, CHR '' '', CHR ''b'']] ! 2) = PyFloat x
          \<longrightarrow> name (field_list odd_header_object ! 2) = float_str x"
    by blast
  then have "name (field_list odd_header_object ! 2) = float_str (Finite False 15 (- 1))"
    by (simp add: float_cell_def)
  with h1 h2 h3 h4 h5 h6 show ?thesis
    by blast
qed

text \<open>
  Claim C10 as stated fails: a header cell that holds a single space yields the empty name.
\<close>

theorem blank_header_counterexample:
  "XLSXObject_init blank_header_book None (SheetInt 0) 0 True False = Inr blank_header_object \<and>
   sheet blank_header_object ! 0 = [str_cell '' ''] \<and>
   map name (field_list blank_header_object) = [[]]"
  by code_simp

end
